theory Spec2Isabelle
  imports Complex_Main "HOL-Library.Sublist" "HOL-Library.Multiset"
begin

section \<open>Values shared by the pipeline\<close>

text \<open>
  Every exception the repository raises is a plain \<^verbatim>\<open>Exception(message)\<close>, every handler
  is \<^verbatim>\<open>except Exception as e\<close> and only reads \<^verbatim>\<open>str(e)\<close>. An exception is therefore an
  instance of \<^verbatim>\<open>Exception\<close>, identified with its message (interrupts and cancellation, which
  are no \<^verbatim>\<open>Exception\<close>, are outside the model). A call that may raise returns \<open>exn + 'a\<close>,
  with \<open>Inl\<close> for the raise.

  A collaborator (index, web, language model, file system) is a parameter: a function
  from the arguments of the call to its outcome.
\<close>

datatype exn = Exception string

fun str :: "exn \<Rightarrow> string" where
  "str (Exception m) = m"

text \<open>
  A Python float as the result of \<^verbatim>\<open>float(text)\<close>: a finite number, an infinity or NaN.
  Finite floats are idealised as reals (rounding is not modelled); the comparisons below are
  Python's, where every comparison with NaN is false.
\<close>

datatype pyfloat = Fin real | PosInf | NegInf | NaN

fun py_lt :: "pyfloat \<Rightarrow> pyfloat \<Rightarrow> bool" where
  "py_lt NaN _ = False"
| "py_lt _ NaN = False"
| "py_lt (Fin a) (Fin b) = (a < b)"
| "py_lt NegInf NegInf = False"
| "py_lt NegInf _ = True"
| "py_lt _ NegInf = False"
| "py_lt PosInf _ = False"
| "py_lt _ PosInf = True"

definition py_gt :: "pyfloat \<Rightarrow> pyfloat \<Rightarrow> bool" where
  "py_gt a b = py_lt b a"

fun py_le :: "pyfloat \<Rightarrow> pyfloat \<Rightarrow> bool" where
  "py_le NaN _ = False"
| "py_le _ NaN = False"
| "py_le (Fin a) (Fin b) = (a \<le> b)"
| "py_le NegInf _ = True"
| "py_le _ NegInf = False"
| "py_le _ PosInf = True"
| "py_le PosInf _ = False"

text \<open>
  \<^verbatim>\<open>max(a, b)\<close> and \<^verbatim>\<open>min(a, b)\<close> keep their first argument unless the second is strictly
  greater (smaller).
\<close>

definition py_max :: "pyfloat \<Rightarrow> pyfloat \<Rightarrow> pyfloat" where
  "py_max a b = (if py_gt b a then b else a)"

definition py_min :: "pyfloat \<Rightarrow> pyfloat \<Rightarrow> pyfloat" where
  "py_min a b = (if py_lt b a then b else a)"

fun py_add :: "pyfloat \<Rightarrow> pyfloat \<Rightarrow> pyfloat" where
  "py_add NaN _ = NaN"
| "py_add _ NaN = NaN"
| "py_add (Fin a) (Fin b) = Fin (a + b)"
| "py_add PosInf NegInf = NaN"
| "py_add NegInf PosInf = NaN"
| "py_add PosInf _ = PosInf"
| "py_add NegInf _ = NegInf"
| "py_add (Fin a) PosInf = PosInf"
| "py_add (Fin a) NegInf = NegInf"

text \<open>True division of a float by a count; \<open>None\<close> is \<^verbatim>\<open>ZeroDivisionError\<close>.\<close>

fun py_truediv :: "pyfloat \<Rightarrow> nat \<Rightarrow> pyfloat option" where
  "py_truediv x 0 = None"
| "py_truediv (Fin a) n = Some (Fin (a / real n))"
| "py_truediv x n = Some x"

text \<open>\<^verbatim>\<open>sum(...)\<close> starts from the integer 0 and adds from the left.\<close>

definition py_sum :: "pyfloat list \<Rightarrow> pyfloat" where
  "py_sum xs = foldl py_add (Fin 0) xs"

text \<open>
  A value produced by evaluating a language-model reply (\<^verbatim>\<open>eval(text)\<close>) or held in a
  free-form dictionary.
\<close>

datatype pyval =
    PNone
  | PStr string
  | PNum real
  | PList "pyval list"
  | PDict "(string \<times> pyval) list"

section \<open>Document model\<close>

text \<open>
  \<^verbatim>\<open>Document.metadata\<close> with the keys the program reads or writes; \<open>None\<close> is an absent key.
  The relevance score, when present, is the similarity the index reported for the
  document, a number; comparing and ordering such scores agrees with the reals.
\<close>

record metadata =
  title :: "string option"
  authors :: "string list option"
  year :: "string option"
  source :: "string option"
  url :: "string option"
  snippet :: "string option"
  relevance_score :: "real option"

record document =
  page_content :: string
  metadata :: metadata

text \<open>\<^verbatim>\<open>x.metadata.get("relevance_score", 0)\<close>\<close>

definition score_key :: "document \<Rightarrow> real" where
  "score_key x = (case relevance_score (metadata x) of None \<Rightarrow> 0 | Some r \<Rightarrow> r)"

section \<open>Web search (rag/web\_search.py)\<close>

record web_result =
  res_title :: string
  res_snippet :: string
  link :: string

text \<open>
  The collaborators of the retrieval subsystem. \<open>http_search\<close> and \<open>http_extract\<close> are the
  bodies of the \<^verbatim>\<open>try\<close> blocks of \<^verbatim>\<open>WebSearch.search\<close> and \<^verbatim>\<open>WebSearch.extract_content\<close>
  (request and HTML scraping); \<open>get_embedding\<close> and \<open>qdrant_search\<close> are the embedding model
  and the vector index.
\<close>

record hit =
  payload_text :: string
  payload_metadata :: metadata
  score :: real

record retriever_deps =
  get_embedding :: "string \<Rightarrow> exn + real list"
  qdrant_search :: "real list \<Rightarrow> int \<Rightarrow> exn + hit list"
  http_search :: "string \<Rightarrow> int \<Rightarrow> exn + web_result list"
  http_extract :: "string \<Rightarrow> exn + string"

definition search :: "retriever_deps \<Rightarrow> string \<Rightarrow> int \<Rightarrow> exn + web_result list" where
  "search deps query_text max_results =
     (case http_search deps query_text max_results of
        Inl e \<Rightarrow> Inl (Exception (''Error searching web: '' @ str e))
      | Inr results \<Rightarrow> Inr results)"

definition extract_content :: "retriever_deps \<Rightarrow> string \<Rightarrow> exn + string" where
  "extract_content deps u =
     (case http_extract deps u of
        Inl e \<Rightarrow> Inl (Exception (''Error extracting content: '' @ str e))
      | Inr text \<Rightarrow> Inr text)"

definition web_document :: "web_result \<Rightarrow> string \<Rightarrow> document" where
  "web_document result content =
     \<lparr>page_content = content,
      metadata = \<lparr>title = Some (res_title result), authors = None, year = None,
                  source = Some ''web'', url = Some (link result),
                  snippet = Some (res_snippet result), relevance_score = None\<rparr>\<rparr>"

text \<open>
  The loop over the search results: an item whose extraction raises is reported on the
  console and skipped (\<^verbatim>\<open>continue\<close>).
\<close>

fun extract_each :: "retriever_deps \<Rightarrow> web_result list \<Rightarrow> document list" where
  "extract_each deps [] = []"
| "extract_each deps (result # results) =
     (case extract_content deps (link result) of
        Inl e \<Rightarrow> extract_each deps results
      | Inr content \<Rightarrow> web_document result content # extract_each deps results)"

definition search_and_extract :: "retriever_deps \<Rightarrow> string \<Rightarrow> int \<Rightarrow> exn + document list" where
  "search_and_extract deps query_text max_results =
     (case search deps query_text max_results of
        Inl e \<Rightarrow> Inl (Exception (''Error in search and extract: '' @ str e))
      | Inr results \<Rightarrow> Inr (extract_each deps results))"

section \<open>Hybrid retriever (rag/retriever.py)\<close>

definition hit_document :: "hit \<Rightarrow> document" where
  "hit_document result =
     \<lparr>page_content = payload_text result,
      metadata = (payload_metadata result)
        \<lparr>relevance_score := Some (score result), source := Some ''database''\<rparr>\<rparr>"

text \<open>
  \<^verbatim>\<open>documents.sort(key=..., reverse=True)\<close>: Python's sort is stable also when reversed, so
  it is the stable sort by the negated key.
\<close>

definition sort_by_score :: "document list \<Rightarrow> document list" where
  "sort_by_score docs = sort_key (\<lambda>x. - score_key x) docs"

text \<open>The slice \<^verbatim>\<open>xs[:n]\<close>; a negative \<open>n\<close> counts from the end.\<close>

definition py_prefix :: "int \<Rightarrow> 'a list \<Rightarrow> 'a list" where
  "py_prefix n xs = (if 0 \<le> n then take (nat n) xs else take (nat (int (length xs) + n)) xs)"

definition web_documents :: "retriever_deps \<Rightarrow> string \<Rightarrow> int \<Rightarrow> bool \<Rightarrow> exn + document list" where
  "web_documents deps query_text limit include_web =
     (if include_web then search_and_extract deps query_text limit else Inr [])"

definition retrieval_error :: "exn \<Rightarrow> exn" where
  "retrieval_error e = Exception (''Error retrieving documents: '' @ str e)"

definition retrieve :: "retriever_deps \<Rightarrow> string \<Rightarrow> int \<Rightarrow> bool \<Rightarrow> exn + document list" where
  "retrieve deps query_text limit include_web =
     (case get_embedding deps query_text of
        Inl e \<Rightarrow> Inl (retrieval_error e)
      | Inr query_embedding \<Rightarrow>
          (case qdrant_search deps query_embedding limit of
             Inl e \<Rightarrow> Inl (retrieval_error e)
           | Inr search_result \<Rightarrow>
               (case web_documents deps query_text limit include_web of
                  Inl e \<Rightarrow> Inl (retrieval_error e)
                | Inr web_docs \<Rightarrow>
                    Inr (py_prefix limit
                           (sort_by_score (map hit_document search_result @ web_docs))))))"

section \<open>Research agent (agents/research\_agent.py)\<close>

text \<open>
  \<^verbatim>\<open>AgentState\<close>: the error list every agent keeps for itself (\<^verbatim>\<open>add_error\<close>). The agent's
  \<^verbatim>\<open>context\<close> is written by \<^verbatim>\<open>update_state\<close> and read by nothing, and is left out.
\<close>

record agent_state =
  agent_errors :: "string list"

definition add_error :: "string \<Rightarrow> agent_state \<Rightarrow> agent_state" where
  "add_error msg st = st\<lparr>agent_errors := agent_errors st @ [msg]\<rparr>"

text \<open>
  The comprehension of \<^verbatim>\<open>filter_by_relevance\<close>. Its comparison is between two numbers and
  cannot raise, so the handler (which would return the input list) is never entered.
\<close>

definition filter_by_relevance :: "document list \<Rightarrow> document list" where
  "filter_by_relevance docs = filter (\<lambda>doc. score_key doc > 0.5) docs"

text \<open>\<^verbatim>\<open>d.get(key, default)\<close> on one key of the metadata.\<close>

definition get_or :: "'a option \<Rightarrow> 'a \<Rightarrow> 'a" where
  "get_or v dflt = (case v of None \<Rightarrow> dflt | Some x \<Rightarrow> x)"

text \<open>
  \<^verbatim>\<open>extract_metadata\<close> builds the six recognised keys with their defaults and then overlays
  the document's own metadata, so that a key the document has keeps its value. Nothing in
  it can raise.
\<close>

definition extract_metadata :: "document \<Rightarrow> metadata" where
  "extract_metadata doc =
     (metadata doc)
       \<lparr>title := Some (get_or (title (metadata doc)) ''''),
        authors := Some (get_or (authors (metadata doc)) []),
        year := Some (get_or (year (metadata doc)) ''''),
        source := Some (get_or (source (metadata doc)) ''''),
        url := Some (get_or (url (metadata doc)) ''''),
        relevance_score := Some (get_or (relevance_score (metadata doc)) 0)\<rparr>"

text \<open>\<^verbatim>\<open>doc.metadata.update(await self.extract_metadata(doc))\<close>\<close>

definition update_metadata :: "document \<Rightarrow> document" where
  "update_metadata doc = doc\<lparr>metadata := extract_metadata doc\<rparr>"

text \<open>
  \<^verbatim>\<open>ResearchAgent.process\<close>: the retriever is called with its defaults (limit 10, web search
  included). A retrieval that raises is recorded in the agent's own error list and the
  agent returns the empty list.
\<close>

definition research_process ::
    "retriever_deps \<Rightarrow> string \<Rightarrow> agent_state \<Rightarrow> document list \<times> agent_state" where
  "research_process deps query_text st =
     (case retrieve deps query_text 10 True of
        Inl e \<Rightarrow> ([], add_error (''Error processing query: '' @ str e) st)
      | Inr docs \<Rightarrow> (map update_metadata (filter_by_relevance docs), st))"

section \<open>Summarizer agent (agents/summarizer\_agent.py)\<close>

record summary =
  sum_title :: string
  sum_summary :: string
  key_findings :: pyval
  sum_metadata :: metadata

text \<open>
  The language-model collaborator as the summarizer uses it. Each field is the outcome of
  one \<^verbatim>\<open>try\<close> body up to the value the code keeps: \<open>summarize_chain\<close> splits a document and
  runs the map-reduce chain, \<open>key_information_llm\<close> and \<open>synthesis_llm\<close> build the prompt,
  call the model and evaluate its reply.
\<close>

record summarizer_deps =
  summarize_chain :: "document \<Rightarrow> exn + string"
  key_information_llm :: "document \<Rightarrow> string \<Rightarrow> exn + pyval"
  synthesis_llm :: "summary list \<Rightarrow> exn + pyval"

definition default_key_information :: pyval where
  "default_key_information =
     PDict [(''main_question'', PStr ''''), (''methodologies'', PList []),
            (''findings'', PList []), (''limitations'', PList []),
            (''future_work'', PList [])]"

definition extract_key_information ::
    "summarizer_deps \<Rightarrow> document \<Rightarrow> string \<Rightarrow> agent_state \<Rightarrow> pyval \<times> agent_state" where
  "extract_key_information deps doc text st =
     (case key_information_llm deps doc text of
        Inl e \<Rightarrow> (default_key_information,
                  add_error (''Error extracting key information: '' @ str e) st)
      | Inr key_info \<Rightarrow> (key_info, st))"

text \<open>
  The loop of \<^verbatim>\<open>SummarizerAgent.process\<close>. A chain that raises leaves the loop; the errors
  already added by earlier iterations stay in the agent's state.
\<close>

fun summarize_each ::
    "summarizer_deps \<Rightarrow> document list \<Rightarrow> agent_state
       \<Rightarrow> (exn \<times> agent_state) + (summary list \<times> agent_state)" where
  "summarize_each deps [] st = Inr ([], st)"
| "summarize_each deps (doc # docs) st =
     (case summarize_chain deps doc of
        Inl e \<Rightarrow> Inl (e, st)
      | Inr text \<Rightarrow>
          (case extract_key_information deps doc text st of
             (key_info, st1) \<Rightarrow>
               (case summarize_each deps docs st1 of
                  Inl failed \<Rightarrow> Inl failed
                | Inr (rest, st2) \<Rightarrow>
                    Inr (\<lparr>sum_title = get_or (title (metadata doc)) '''',
                          sum_summary = text, key_findings = key_info,
                          sum_metadata = metadata doc\<rparr> # rest, st2))))"

definition summarizer_process ::
    "summarizer_deps \<Rightarrow> document list \<Rightarrow> agent_state \<Rightarrow> summary list \<times> agent_state" where
  "summarizer_process deps docs st =
     (case summarize_each deps docs st of
        Inl (e, st1) \<Rightarrow> ([], add_error (''Error summarizing documents: '' @ str e) st1)
      | Inr (sms, st1) \<Rightarrow> (sms, st1))"

definition default_synthesis :: pyval where
  "default_synthesis =
     PDict [(''common_themes'', PList []), (''conflicting_findings'', PList []),
            (''complementary_insights'', PList []), (''research_gaps'', PList []),
            (''future_directions'', PList [])]"

definition cross_document_synthesis ::
    "summarizer_deps \<Rightarrow> summary list \<Rightarrow> agent_state \<Rightarrow> pyval \<times> agent_state" where
  "cross_document_synthesis deps sms st =
     (case synthesis_llm deps sms of
        Inl e \<Rightarrow> (default_synthesis, add_error (''Error synthesizing documents: '' @ str e) st)
      | Inr v \<Rightarrow> (v, st))"

section \<open>Critic agent (agents/critic\_agent.py)\<close>

record evaluation =
  eval_title :: string
  quality_score :: pyfloat
  eval_relevance_score :: pyfloat
  methodology_score :: pyfloat
  overall_score :: pyfloat
  critique :: pyval

text \<open>
  The result dictionary of \<^verbatim>\<open>CriticAgent.process\<close>, keys \<^verbatim>\<open>evaluations\<close> and
  \<^verbatim>\<open>average_scores\<close>; the latter is a dictionary in insertion order, \<open>[]\<close> being \<^verbatim>\<open>{}\<close>.
\<close>

record critic_result =
  evaluation_list :: "evaluation list"
  average_scores :: "(string \<times> pyfloat) list"

text \<open>
  The language model as the critic uses it. A scoring field is the outcome of the \<^verbatim>\<open>try\<close>
  body up to \<^verbatim>\<open>score = float(response.generations[0][0].text.strip())\<close>: the float that
  Python parsed from the reply, or the exception raised on the way (an unparseable reply
  is a \<^verbatim>\<open>ValueError\<close>).
\<close>

record critic_deps =
  quality_llm :: "document \<Rightarrow> summary \<Rightarrow> exn + pyfloat"
  relevance_llm :: "document \<Rightarrow> summary \<Rightarrow> exn + pyfloat"
  methodology_llm :: "document \<Rightarrow> exn + pyfloat"
  critique_llm :: "document \<Rightarrow> summary \<Rightarrow> exn + pyval"

definition evaluate_quality ::
    "critic_deps \<Rightarrow> document \<Rightarrow> summary \<Rightarrow> agent_state \<Rightarrow> pyfloat \<times> agent_state" where
  "evaluate_quality deps doc sm st =
     (case quality_llm deps doc sm of
        Inl e \<Rightarrow> (Fin 0, add_error (''Error evaluating quality: '' @ str e) st)
      | Inr sc \<Rightarrow> (py_min (py_max sc (Fin 0)) (Fin 1), st))"

definition evaluate_relevance ::
    "critic_deps \<Rightarrow> document \<Rightarrow> summary \<Rightarrow> agent_state \<Rightarrow> pyfloat \<times> agent_state" where
  "evaluate_relevance deps doc sm st =
     (case relevance_llm deps doc sm of
        Inl e \<Rightarrow> (Fin 0, add_error (''Error evaluating relevance: '' @ str e) st)
      | Inr sc \<Rightarrow> (py_min (py_max sc (Fin 0)) (Fin 1), st))"

definition evaluate_methodology ::
    "critic_deps \<Rightarrow> document \<Rightarrow> agent_state \<Rightarrow> pyfloat \<times> agent_state" where
  "evaluate_methodology deps doc st =
     (case methodology_llm deps doc of
        Inl e \<Rightarrow> (Fin 0, add_error (''Error evaluating methodology: '' @ str e) st)
      | Inr sc \<Rightarrow> (py_min (py_max sc (Fin 0)) (Fin 1), st))"

definition default_critique :: pyval where
  "default_critique =
     PDict [(''strengths'', PList []), (''weaknesses'', PList []),
            (''methodological_concerns'', PList []), (''contribution'', PStr ''''),
            (''recommendations'', PList [])]"

definition generate_critique ::
    "critic_deps \<Rightarrow> document \<Rightarrow> summary \<Rightarrow> agent_state \<Rightarrow> pyval \<times> agent_state" where
  "generate_critique deps doc sm st =
     (case critique_llm deps doc sm of
        Inl e \<Rightarrow> (default_critique, add_error (''Error generating critique: '' @ str e) st)
      | Inr v \<Rightarrow> (v, st))"

definition zero_division :: exn where
  "zero_division = Exception ''float division by zero''"

text \<open>
  One iteration of the loop of \<^verbatim>\<open>CriticAgent.process\<close>: the three scores, their mean, then
  the critique, in the order the dictionary literal evaluates them.
\<close>

definition evaluate_pair ::
    "critic_deps \<Rightarrow> document \<Rightarrow> summary \<Rightarrow> agent_state
       \<Rightarrow> (exn \<times> agent_state) + (evaluation \<times> agent_state)" where
  "evaluate_pair deps doc sm st =
     (case evaluate_quality deps doc sm st of (q, st1) \<Rightarrow>
      case evaluate_relevance deps doc sm st1 of (r, st2) \<Rightarrow>
      case evaluate_methodology deps doc st2 of (m, st3) \<Rightarrow>
      case py_truediv (py_add (py_add q r) m) 3 of
        None \<Rightarrow> Inl (zero_division, st3)
      | Some overall \<Rightarrow>
          (case generate_critique deps doc sm st3 of (c, st4) \<Rightarrow>
             Inr (\<lparr>eval_title = get_or (title (metadata doc)) '''',
                   quality_score = q, eval_relevance_score = r, methodology_score = m,
                   overall_score = overall, critique = c\<rparr>, st4)))"

fun evaluate_pairs ::
    "critic_deps \<Rightarrow> (document \<times> summary) list \<Rightarrow> agent_state
       \<Rightarrow> (exn \<times> agent_state) + (evaluation list \<times> agent_state)" where
  "evaluate_pairs deps [] st = Inr ([], st)"
| "evaluate_pairs deps ((doc, sm) # pairs) st =
     (case evaluate_pair deps doc sm st of
        Inl failed \<Rightarrow> Inl failed
      | Inr (ev, st1) \<Rightarrow>
          (case evaluate_pairs deps pairs st1 of
             Inl failed \<Rightarrow> Inl failed
           | Inr (rest, st2) \<Rightarrow> Inr (ev # rest, st2)))"

definition calculate_average_scores ::
    "evaluation list \<Rightarrow> agent_state \<Rightarrow> (string \<times> pyfloat) list \<times> agent_state" where
  "calculate_average_scores evals st =
     (if evals = [] then ([], st)
      else
        (let total_quality = py_sum (map quality_score evals);
             total_relevance = py_sum (map eval_relevance_score evals);
             total_methodology = py_sum (map methodology_score evals);
             total_overall = py_sum (map overall_score evals);
             n = length evals
         in case (py_truediv total_quality n, py_truediv total_relevance n,
                  py_truediv total_methodology n, py_truediv total_overall n) of
              (Some aq, Some ar, Some am, Some ao) \<Rightarrow>
                ([(''average_quality'', aq), (''average_relevance'', ar),
                  (''average_methodology'', am), (''average_overall'', ao)], st)
            | _ \<Rightarrow>
                ([], add_error (''Error calculating average scores: '' @ str zero_division) st)))"

definition critic_process ::
    "critic_deps \<Rightarrow> document list \<Rightarrow> summary list \<Rightarrow> agent_state
       \<Rightarrow> critic_result \<times> agent_state" where
  "critic_process deps docs sms st =
     (case evaluate_pairs deps (zip docs sms) st of
        Inl (e, st1) \<Rightarrow>
          (\<lparr>evaluation_list = [], average_scores = []\<rparr>,
           add_error (''Error evaluating documents: '' @ str e) st1)
      | Inr (evals, st1) \<Rightarrow>
          (case calculate_average_scores evals st1 of
             (avg, st2) \<Rightarrow> (\<lparr>evaluation_list = evals, average_scores = avg\<rparr>, st2)))"

section \<open>Writer agent (agents/writer\_agent.py)\<close>

record reference =
  ref_title :: string
  ref_authors :: "string list"
  ref_year :: string
  ref_source :: string
  ref_url :: string

record report =
  report_title :: string
  report_date :: string
  report_query :: string
  executive_summary :: string
  methodology :: pyval
  findings :: pyval
  analysis :: pyval
  recommendations :: pyval
  references :: "reference list"

text \<open>
  The writer's collaborators. Each section field is the outcome of the \<^verbatim>\<open>try\<close> body of one
  \<^verbatim>\<open>_generate_...\<close> method (prompt, completion call, evaluation of the reply), given the
  arguments the method receives; the evaluations argument is \<open>None\<close> for the empty
  dictionary of the initial state. \<open>today\<close> is the formatted date of the run and
  \<open>write_file\<close> the body of \<^verbatim>\<open>_save_report\<close>.
\<close>

record writer_deps =
  executive_summary_llm ::
    "string \<Rightarrow> summary list \<Rightarrow> critic_result option \<Rightarrow> pyval \<Rightarrow> exn + string"
  methodology_section_llm :: "document list \<Rightarrow> critic_result option \<Rightarrow> exn + pyval"
  findings_section_llm :: "summary list \<Rightarrow> pyval \<Rightarrow> exn + pyval"
  analysis_section_llm :: "critic_result option \<Rightarrow> pyval \<Rightarrow> exn + pyval"
  recommendations_llm :: "pyval \<Rightarrow> critic_result option \<Rightarrow> exn + pyval"
  today :: string
  write_file :: "report \<Rightarrow> exn + string"

definition generate_executive_summary ::
    "writer_deps \<Rightarrow> string \<Rightarrow> summary list \<Rightarrow> critic_result option \<Rightarrow> pyval
       \<Rightarrow> agent_state \<Rightarrow> string \<times> agent_state" where
  "generate_executive_summary deps query_text sms evals synth st =
     (case executive_summary_llm deps query_text sms evals synth of
        Inl e \<Rightarrow> ('''', add_error (''Error generating executive summary: '' @ str e) st)
      | Inr text \<Rightarrow> (text, st))"

definition generate_methodology_section ::
    "writer_deps \<Rightarrow> document list \<Rightarrow> critic_result option
       \<Rightarrow> agent_state \<Rightarrow> pyval \<times> agent_state" where
  "generate_methodology_section deps docs evals st =
     (case methodology_section_llm deps docs evals of
        Inl e \<Rightarrow> (PDict [], add_error (''Error generating methodology section: '' @ str e) st)
      | Inr v \<Rightarrow> (v, st))"

definition generate_findings_section ::
    "writer_deps \<Rightarrow> summary list \<Rightarrow> pyval \<Rightarrow> agent_state \<Rightarrow> pyval \<times> agent_state" where
  "generate_findings_section deps sms synth st =
     (case findings_section_llm deps sms synth of
        Inl e \<Rightarrow> (PDict [], add_error (''Error generating findings section: '' @ str e) st)
      | Inr v \<Rightarrow> (v, st))"

definition generate_analysis_section ::
    "writer_deps \<Rightarrow> critic_result option \<Rightarrow> pyval \<Rightarrow> agent_state \<Rightarrow> pyval \<times> agent_state" where
  "generate_analysis_section deps evals synth st =
     (case analysis_section_llm deps evals synth of
        Inl e \<Rightarrow> (PDict [], add_error (''Error generating analysis section: '' @ str e) st)
      | Inr v \<Rightarrow> (v, st))"

definition generate_recommendations ::
    "writer_deps \<Rightarrow> pyval \<Rightarrow> critic_result option \<Rightarrow> agent_state \<Rightarrow> pyval \<times> agent_state" where
  "generate_recommendations deps synth evals st =
     (case recommendations_llm deps synth evals of
        Inl e \<Rightarrow> (PList [], add_error (''Error generating recommendations: '' @ str e) st)
      | Inr v \<Rightarrow> (v, st))"

text \<open>
  One reference per document. Reading keys with a default cannot raise, so the handler of
  \<^verbatim>\<open>_generate_references\<close> has nothing to catch.
\<close>

definition generate_references :: "document list \<Rightarrow> reference list" where
  "generate_references docs =
     map (\<lambda>doc. \<lparr>ref_title = get_or (title (metadata doc)) '''',
                  ref_authors = get_or (authors (metadata doc)) [],
                  ref_year = get_or (year (metadata doc)) '''',
                  ref_source = get_or (source (metadata doc)) '''',
                  ref_url = get_or (url (metadata doc)) ''''\<rparr>) docs"

definition save_report :: "writer_deps \<Rightarrow> report \<Rightarrow> agent_state \<Rightarrow> string \<times> agent_state" where
  "save_report deps rep st =
     (case write_file deps rep of
        Inl e \<Rightarrow> ('''', add_error (''Error saving report: '' @ str e) st)
      | Inr filepath \<Rightarrow> (filepath, st))"

text \<open>
  \<^verbatim>\<open>WriterAgent.process\<close>. Every step it calls handles its own exceptions, so the outer
  handler (which returns the empty dictionary, \<open>None\<close> here) has nothing to catch.
\<close>

definition writer_process ::
    "writer_deps \<Rightarrow> string \<Rightarrow> document list \<Rightarrow> summary list \<Rightarrow> critic_result option
       \<Rightarrow> pyval \<Rightarrow> agent_state \<Rightarrow> report option \<times> agent_state" where
  "writer_process deps query_text docs sms evals synth st =
     (case generate_executive_summary deps query_text sms evals synth st of (es, st1) \<Rightarrow>
      case generate_methodology_section deps docs evals st1 of (me, st2) \<Rightarrow>
      case generate_findings_section deps sms synth st2 of (fi, st3) \<Rightarrow>
      case generate_analysis_section deps evals synth st3 of (an, st4) \<Rightarrow>
      case generate_recommendations deps synth evals st4 of (re, st5) \<Rightarrow>
        (let rep = \<lparr>report_title = ''Research Report: '' @ query_text,
                     report_date = today deps,
                     report_query = query_text,
                     executive_summary = es, methodology = me, findings = fi,
                     analysis = an, recommendations = re,
                     references = generate_references docs\<rparr>
         in case save_report deps rep st5 of (report_path, st6) \<Rightarrow> (Some rep, st6)))"

section \<open>Coordinator (graph/coordinator.py)\<close>

text \<open>
  \<^verbatim>\<open>ResearchState\<close>. The empty dictionaries of the initial state are \<open>None\<close> for
  \<open>evaluations\<close> and \<open>report\<close> and \<open>PDict []\<close> for \<open>synthesis\<close>.
\<close>

record research_state =
  query :: string
  documents :: "document list"
  summaries :: "summary list"
  evaluations :: "critic_result option"
  synthesis :: pyval
  report :: "report option"
  errors :: "string list"

text \<open>
  The agents the coordinator is constructed with. The coordinator accepts any agent
  objects, so a call is a function of its arguments and of the state \<open>'w\<close> of everything
  outside the coordinator, and may raise.
\<close>

record 'w agents =
  research_agent :: "string \<Rightarrow> 'w \<Rightarrow> (exn + document list) \<times> 'w"
  summarizer_agent :: "document list \<Rightarrow> 'w \<Rightarrow> (exn + summary list) \<times> 'w"
  critic_agent :: "document list \<Rightarrow> summary list \<Rightarrow> 'w \<Rightarrow> (exn + critic_result) \<times> 'w"
  synthesis_agent :: "summary list \<Rightarrow> 'w \<Rightarrow> (exn + pyval) \<times> 'w"
  writer_agent ::
    "string \<Rightarrow> document list \<Rightarrow> summary list \<Rightarrow> critic_result option \<Rightarrow> pyval
       \<Rightarrow> 'w \<Rightarrow> (exn + report option) \<times> 'w"

definition research_node ::
    "'w agents \<Rightarrow> research_state \<Rightarrow> 'w \<Rightarrow> research_state \<times> 'w" where
  "research_node ag s w =
     (case research_agent ag (query s) w of
        (Inr docs, w1) \<Rightarrow> (s\<lparr>documents := docs\<rparr>, w1)
      | (Inl e, w1) \<Rightarrow> (s\<lparr>errors := errors s @ [str e]\<rparr>, w1))"

definition summarize_node ::
    "'w agents \<Rightarrow> research_state \<Rightarrow> 'w \<Rightarrow> research_state \<times> 'w" where
  "summarize_node ag s w =
     (case summarizer_agent ag (documents s) w of
        (Inr sms, w1) \<Rightarrow> (s\<lparr>summaries := sms\<rparr>, w1)
      | (Inl e, w1) \<Rightarrow> (s\<lparr>errors := errors s @ [str e]\<rparr>, w1))"

definition evaluate_node ::
    "'w agents \<Rightarrow> research_state \<Rightarrow> 'w \<Rightarrow> research_state \<times> 'w" where
  "evaluate_node ag s w =
     (case critic_agent ag (documents s) (summaries s) w of
        (Inr evals, w1) \<Rightarrow> (s\<lparr>evaluations := Some evals\<rparr>, w1)
      | (Inl e, w1) \<Rightarrow> (s\<lparr>errors := errors s @ [str e]\<rparr>, w1))"

definition synthesize_node ::
    "'w agents \<Rightarrow> research_state \<Rightarrow> 'w \<Rightarrow> research_state \<times> 'w" where
  "synthesize_node ag s w =
     (case synthesis_agent ag (summaries s) w of
        (Inr synth, w1) \<Rightarrow> (s\<lparr>synthesis := synth\<rparr>, w1)
      | (Inl e, w1) \<Rightarrow> (s\<lparr>errors := errors s @ [str e]\<rparr>, w1))"

definition write_node ::
    "'w agents \<Rightarrow> research_state \<Rightarrow> 'w \<Rightarrow> research_state \<times> 'w" where
  "write_node ag s w =
     (case writer_agent ag (query s) (documents s) (summaries s) (evaluations s)
             (synthesis s) w of
        (Inr rep, w1) \<Rightarrow> (s\<lparr>report := rep\<rparr>, w1)
      | (Inl e, w1) \<Rightarrow> (s\<lparr>errors := errors s @ [str e]\<rparr>, w1))"

definition initial_state :: "string \<Rightarrow> research_state" where
  "initial_state query_text =
     \<lparr>query = query_text, documents = [], summaries = [], evaluations = None,
      synthesis = PDict [], report = None, errors = []\<rparr>"

text \<open>
  \<^verbatim>\<open>process_query\<close>: the compiled graph is the chain research, summarize, evaluate,
  synthesize, write, each node receiving the state its predecessor returned.
\<close>

definition process_query :: "'w agents \<Rightarrow> string \<Rightarrow> 'w \<Rightarrow> research_state \<times> 'w" where
  "process_query ag query_text w =
     (case research_node ag (initial_state query_text) w of (s1, w1) \<Rightarrow>
      case summarize_node ag s1 w1 of (s2, w2) \<Rightarrow>
      case evaluate_node ag s2 w2 of (s3, w3) \<Rightarrow>
      case synthesize_node ag s3 w3 of (s4, w4) \<Rightarrow>
        write_node ag s4 w4)"

section \<open>The assembled application (main.py)\<close>

text \<open>
  The four agent objects that \<^verbatim>\<open>main\<close> constructs, each with its own state; the summarizer
  object serves both the summarize and the synthesize node.
\<close>

record app_state =
  research_st :: agent_state
  summarizer_st :: agent_state
  critic_st :: agent_state
  writer_st :: agent_state

record app_deps =
  retriever_of :: retriever_deps
  summarizer_of :: summarizer_deps
  critic_of :: critic_deps
  writer_of :: writer_deps

definition app_agents :: "app_deps \<Rightarrow> app_state agents" where
  "app_agents deps =
     \<lparr>research_agent = (\<lambda>query_text w.
        case research_process (retriever_of deps) query_text (research_st w) of
          (docs, st) \<Rightarrow> (Inr docs, w\<lparr>research_st := st\<rparr>)),
      summarizer_agent = (\<lambda>docs w.
        case summarizer_process (summarizer_of deps) docs (summarizer_st w) of
          (sms, st) \<Rightarrow> (Inr sms, w\<lparr>summarizer_st := st\<rparr>)),
      critic_agent = (\<lambda>docs sms w.
        case critic_process (critic_of deps) docs sms (critic_st w) of
          (evals, st) \<Rightarrow> (Inr evals, w\<lparr>critic_st := st\<rparr>)),
      synthesis_agent = (\<lambda>sms w.
        case cross_document_synthesis (summarizer_of deps) sms (summarizer_st w) of
          (synth, st) \<Rightarrow> (Inr synth, w\<lparr>summarizer_st := st\<rparr>)),
      writer_agent = (\<lambda>query_text docs sms evals synth w.
        case writer_process (writer_of deps) query_text docs sms evals synth (writer_st w) of
          (rep, st) \<Rightarrow> (Inr rep, w\<lparr>writer_st := st\<rparr>))\<rparr>"

definition fresh_app_state :: app_state where
  "fresh_app_state =
     \<lparr>research_st = \<lparr>agent_errors = []\<rparr>, summarizer_st = \<lparr>agent_errors = []\<rparr>,
      critic_st = \<lparr>agent_errors = []\<rparr>, writer_st = \<lparr>agent_errors = []\<rparr>\<rparr>"

section \<open>Notions the properties are stated with\<close>

text \<open>
  The specification's normalised title (case-insensitive, whitespace-normalised): letters
  are lower-cased, leading and trailing whitespace is dropped and every inner run of
  whitespace becomes one blank. The source has no counterpart of it.
\<close>

definition lower_char :: "char \<Rightarrow> char" where
  "lower_char c =
     (case map_of (zip ''ABCDEFGHIJKLMNOPQRSTUVWXYZ'' ''abcdefghijklmnopqrstuvwxyz'') c of
        None \<Rightarrow> c
      | Some l \<Rightarrow> l)"

definition is_space :: "char \<Rightarrow> bool" where
  "is_space c = (c = CHR '' '' \<or> c = CHR 0x09 \<or> c = CHR 0x0A \<or> c = CHR 0x0D)"

fun split_words :: "string \<Rightarrow> string \<Rightarrow> string list" where
  "split_words cur [] = (if cur = [] then [] else [cur])"
| "split_words cur (c # cs) =
     (if is_space c then (if cur = [] then split_words [] cs else cur # split_words [] cs)
      else split_words (cur @ [c]) cs)"

fun join_words :: "string list \<Rightarrow> string" where
  "join_words [] = []"
| "join_words [w] = w"
| "join_words (w # ws) = w @ '' '' @ join_words ws"

definition spec_normalize_title :: "string \<Rightarrow> string" where
  "spec_normalize_title t = join_words (split_words [] (map lower_char t))"

definition normalized_title :: "document \<Rightarrow> string" where
  "normalized_title doc = spec_normalize_title (get_or (title (metadata doc)) '''')"

text \<open>Python's \<^verbatim>\<open>0 <= x <= 1\<close> on a float.\<close>

definition in_unit_interval :: "pyfloat \<Rightarrow> bool" where
  "in_unit_interval x = (py_le (Fin 0) x \<and> py_le x (Fin 1))"

section \<open>Scenarios\<close>

definition titled :: "string \<Rightarrow> metadata" where
  "titled t = \<lparr>title = Some t, authors = None, year = None, source = None, url = None,
               snippet = None, relevance_score = None\<rparr>"

definition scored_doc :: "string \<Rightarrow> real option \<Rightarrow> document" where
  "scored_doc t sc = \<lparr>page_content = ''text'', metadata = (titled t)\<lparr>relevance_score := sc\<rparr>\<rparr>"

definition index_hit :: "string \<Rightarrow> real \<Rightarrow> hit" where
  "index_hit t sc = \<lparr>payload_text = ''text'', payload_metadata = titled t, score = sc\<rparr>"

definition found_page :: "string \<Rightarrow> web_result" where
  "found_page t = \<lparr>res_title = t, res_snippet = ''snippet'', link = t @ ''.org''\<rparr>"

text \<open>
  A retrieval environment whose index answers with the given hits and whose web search
  answers with the given results; the page at \<open>dead_link\<close> cannot be fetched.
\<close>

definition answering :: "hit list \<Rightarrow> web_result list \<Rightarrow> string \<Rightarrow> retriever_deps" where
  "answering hits results dead_link =
     \<lparr>get_embedding = (\<lambda>q. Inr [1, 0]),
      qdrant_search = (\<lambda>v n. Inr hits),
      http_search = (\<lambda>q n. Inr results),
      http_extract = (\<lambda>u. if u = dead_link then Inl (Exception ''timed out'')
                           else Inr ''page'')\<rparr>"

text \<open>
  The list of the specification's filter scenario (scores 0.9, 0.6, 0.4), followed by a
  document scoring exactly 0.5 and an unscored one.
\<close>

definition graph_docs :: "document list" where
  "graph_docs =
     [scored_doc ''a'' (Some 0.9), scored_doc ''b'' (Some 0.6), scored_doc ''c'' (Some 0.4),
      scored_doc ''d'' (Some 0.5), scored_doc ''e'' None]"


text \<open>Agents that all raise, and a state in the middle of a run.\<close>

definition failing_agents :: "unit agents" where
  "failing_agents =
     \<lparr>research_agent = (\<lambda>q w. (Inl (Exception ''agent down''), w)),
      summarizer_agent = (\<lambda>docs w. (Inl (Exception ''agent down''), w)),
      critic_agent = (\<lambda>docs sms w. (Inl (Exception ''agent down''), w)),
      synthesis_agent = (\<lambda>sms w. (Inl (Exception ''agent down''), w)),
      writer_agent = (\<lambda>q docs sms evals synth w. (Inl (Exception ''agent down''), w))\<rparr>"

definition midway_state :: research_state where
  "midway_state =
     \<lparr>query = ''graph neural networks'', documents = graph_docs, summaries = [],
      evaluations = None, synthesis = PDict [], report = None, errors = [''earlier'']\<rparr>"

text \<open>Index hits and web results with a tie at score 0 between the two sources.\<close>

definition mixed_hits :: "hit list" where
  "mixed_hits = [index_hit ''a'' 0.6, index_hit ''b'' 0.9, index_hit ''c'' 0]"

definition mixed_pages :: "web_result list" where
  "mixed_pages = [found_page ''w1'', found_page ''w2'', found_page ''w3'']"

text \<open>
  A critic whose model replies to every scoring prompt with a text that Python parses to
  the given float, and fails on the critique prompt.
\<close>

definition critic_replying :: "pyfloat \<Rightarrow> critic_deps" where
  "critic_replying x =
     \<lparr>quality_llm = (\<lambda>doc sm. Inr x), relevance_llm = (\<lambda>doc sm. Inr x),
      methodology_llm = (\<lambda>doc. Inr x),
      critique_llm = (\<lambda>doc sm. Inl (Exception ''invalid syntax''))\<rparr>"

definition summary_of :: "string \<Rightarrow> summary" where
  "summary_of t = \<lparr>sum_title = t, sum_summary = ''summary'', key_findings = PDict [],
                    sum_metadata = titled t\<rparr>"

definition no_errors :: agent_state where
  "no_errors = \<lparr>agent_errors = []\<rparr>"

text \<open>The specification's deduplication scenario, both entries coming from the index.\<close>

definition twin_hits :: "hit list" where
  "twin_hits = [index_hit ''Transformers'' 0.8, index_hit ''transformers '' 0.55]"

text \<open>An index that answers while the web search is down, and the reverse.\<close>

definition web_down :: retriever_deps where
  "web_down = (answering [index_hit ''a'' 0.9] [] '''')
                \<lparr>http_search := (\<lambda>q n. Inl (Exception ''no network''))\<rparr>"

definition index_down :: retriever_deps where
  "index_down = (answering [] [] '''')
                  \<lparr>qdrant_search := (\<lambda>v n. Inl (Exception ''connection refused''))\<rparr>"

definition model_down :: exn where
  "model_down = Exception ''no model''"

text \<open>
  An application whose index is unreachable and whose language model answers only the
  prompt for the executive summary.
\<close>

definition offline_app :: app_deps where
  "offline_app =
     \<lparr>retriever_of = index_down,
      summarizer_of = \<lparr>summarize_chain = (\<lambda>doc. Inl model_down),
                       key_information_llm = (\<lambda>doc text. Inl model_down),
                       synthesis_llm = (\<lambda>sms. Inl model_down)\<rparr>,
      critic_of = critic_replying (Fin 0.7),
      writer_of = \<lparr>executive_summary_llm = (\<lambda>q sms evals synth. Inr ''Nothing was found.''),
                   methodology_section_llm = (\<lambda>docs evals. Inl model_down),
                   findings_section_llm = (\<lambda>sms synth. Inl model_down),
                   analysis_section_llm = (\<lambda>evals synth. Inl model_down),
                   recommendations_llm = (\<lambda>synth evals. Inl model_down),
                   today = ''2024-05-01'',
                   write_file = (\<lambda>rep. Inr ''data/report_20240501_120000.json'')\<rparr>\<rparr>"

text \<open>
  A critic whose quality score depends on the summary it is shown: 1 for the summary
  titled \<open>a\<close>, 0 for any other.
\<close>

definition critic_by_summary :: critic_deps where
  "critic_by_summary =
     \<lparr>quality_llm = (\<lambda>doc sm. if sum_title sm = ''a'' then Inr (Fin 1) else Inr (Fin 0)),
      relevance_llm = (\<lambda>doc sm. Inr (Fin 0.5)),
      methodology_llm = (\<lambda>doc. Inl (Exception ''could not convert string to float'')),
      critique_llm = (\<lambda>doc sm. Inr (PDict [(''summary'', PStr (sum_title sm))]))\<rparr>"


section \<open>Relevance filter\<close>

lemma score_key_above_half:
  "(0.5 < score_key doc) =
     (case relevance_score (metadata doc) of None \<Rightarrow> False | Some r \<Rightarrow> 0.5 < r)"
  by (cases "relevance_score (metadata doc)") (simp_all add: score_key_def)

text \<open>
  Claim C6. The relevance filter returns exactly the documents whose relevance score is
  present and strictly greater than 0.5, in their original relative order: a document is in
  the output if and only if it is in the input and carries such a score (so a score of
  exactly 0.5 and a missing score, read as 0, are both excluded), and the output is a
  subsequence of the input. The filter is a total function: it returns a list on every
  input.
\<close>

theorem filter_by_relevance_exact:
  "filter_by_relevance docs =
     filter (\<lambda>doc. case relevance_score (metadata doc) of
                      None \<Rightarrow> False | Some r \<Rightarrow> 0.5 < r) docs
   \<and> subseq (filter_by_relevance docs) docs
   \<and> (doc \<in> set (filter_by_relevance docs)) =
       (doc \<in> set docs \<and> (\<exists>r. relevance_score (metadata doc) = Some r \<and> 0.5 < r))"
proof -
  have eq: "filter_by_relevance docs =
      filter (\<lambda>doc. case relevance_score (metadata doc) of
                       None \<Rightarrow> False | Some r \<Rightarrow> 0.5 < r) docs"
    unfolding filter_by_relevance_def score_key_above_half ..
  have sub: "subseq (filter_by_relevance docs) docs"
    unfolding filter_by_relevance_def by simp
  have mem: "(doc \<in> set (filter_by_relevance docs)) =
       (doc \<in> set docs \<and> (\<exists>r. relevance_score (metadata doc) = Some r \<and> 0.5 < r))"
    unfolding eq by (cases "relevance_score (metadata doc)") simp_all
  from eq sub mem show ?thesis by blast
qed

theorem filter_by_relevance_exact_witness:
  "filter_by_relevance graph_docs = [scored_doc ''a'' (Some 0.9), scored_doc ''b'' (Some 0.6)]
   \<and> subseq [scored_doc ''a'' (Some 0.9), scored_doc ''b'' (Some 0.6)] graph_docs"
  using filter_by_relevance_exact [of graph_docs "scored_doc ''a'' (Some 0.9)"]
  by (simp add: graph_docs_def scored_doc_def titled_def)

text \<open>
  Claim C7. The relevance filter is idempotent: filtering an already filtered list changes
  nothing.
\<close>

theorem filter_by_relevance_idempotent:
  "filter_by_relevance (filter_by_relevance docs) = filter_by_relevance docs"
  by (simp add: filter_by_relevance_def)

section \<open>Error isolation in the coordinator\<close>

text \<open>
  Claim C1. For each of the five nodes (research, summarize, evaluate, synthesize, write)
  and every input state: if the node's agent call raises, the node returns the input state
  with exactly one message, the text of the exception, appended to \<open>errors\<close>; every
  other field, in particular the field the node owns, keeps its prior value.
\<close>

theorem stage_failure_isolated:
  "(research_agent ag (query s) w = (Inl e, w1) \<longrightarrow>
      research_node ag s w = (s\<lparr>errors := errors s @ [str e]\<rparr>, w1)
      \<and> documents (fst (research_node ag s w)) = documents s)
   \<and> (summarizer_agent ag (documents s) w = (Inl e, w1) \<longrightarrow>
      summarize_node ag s w = (s\<lparr>errors := errors s @ [str e]\<rparr>, w1)
      \<and> summaries (fst (summarize_node ag s w)) = summaries s)
   \<and> (critic_agent ag (documents s) (summaries s) w = (Inl e, w1) \<longrightarrow>
      evaluate_node ag s w = (s\<lparr>errors := errors s @ [str e]\<rparr>, w1)
      \<and> evaluations (fst (evaluate_node ag s w)) = evaluations s)
   \<and> (synthesis_agent ag (summaries s) w = (Inl e, w1) \<longrightarrow>
      synthesize_node ag s w = (s\<lparr>errors := errors s @ [str e]\<rparr>, w1)
      \<and> synthesis (fst (synthesize_node ag s w)) = synthesis s)
   \<and> (writer_agent ag (query s) (documents s) (summaries s) (evaluations s) (synthesis s) w
         = (Inl e, w1) \<longrightarrow>
      write_node ag s w = (s\<lparr>errors := errors s @ [str e]\<rparr>, w1)
      \<and> report (fst (write_node ag s w)) = report s)"
  by (simp add: research_node_def summarize_node_def evaluate_node_def synthesize_node_def
        write_node_def)

theorem stage_failure_isolated_witness:
  "research_node failing_agents midway_state () =
     (midway_state\<lparr>errors := [''earlier'', ''agent down'']\<rparr>, ())
   \<and> summarize_node failing_agents midway_state () =
     (midway_state\<lparr>errors := [''earlier'', ''agent down'']\<rparr>, ())
   \<and> evaluate_node failing_agents midway_state () =
     (midway_state\<lparr>errors := [''earlier'', ''agent down'']\<rparr>, ())
   \<and> synthesize_node failing_agents midway_state () =
     (midway_state\<lparr>errors := [''earlier'', ''agent down'']\<rparr>, ())
   \<and> write_node failing_agents midway_state () =
     (midway_state\<lparr>errors := [''earlier'', ''agent down'']\<rparr>, ())
   \<and> documents (fst (research_node failing_agents midway_state ())) = graph_docs"
  using stage_failure_isolated [of failing_agents midway_state "()" "Exception ''agent down''" "()"]
  by (simp add: failing_agents_def midway_state_def)

text \<open>
  With agents that all raise, a run still passes through the five nodes and ends with
  five messages and every owned field at its initial value.
\<close>

lemma all_stages_failing_run:
  "errors (fst (process_query failing_agents ''q'' ())) =
     [''agent down'', ''agent down'', ''agent down'', ''agent down'', ''agent down'']
   \<and> documents (fst (process_query failing_agents ''q'' ())) = []
   \<and> report (fst (process_query failing_agents ''q'' ())) = None"
  by (simp add: process_query_def failing_agents_def research_node_def summarize_node_def
      evaluate_node_def synthesize_node_def write_node_def initial_state_def)

section \<open>Hybrid retriever\<close>

lemma retrieve_answers:
  assumes "get_embedding deps q = Inr v"
    and "qdrant_search deps v limit = Inr hits"
    and "web_documents deps q limit iw = Inr webs"
  shows "retrieve deps q limit iw =
           Inr (py_prefix limit (sort_by_score (map hit_document hits @ webs)))"
  using assms by (simp add: retrieve_def)

lemma retrieve_answered:
  assumes "retrieve deps q limit iw = Inr out"
  shows "\<exists>v hits webs. get_embedding deps q = Inr v \<and> qdrant_search deps v limit = Inr hits
           \<and> web_documents deps q limit iw = Inr webs
           \<and> out = py_prefix limit (sort_by_score (map hit_document hits @ webs))"
  using assms by (auto simp: retrieve_def split: sum.splits)

lemma py_prefix_is_prefix: "prefix (py_prefix n xs) xs"
  by (simp add: py_prefix_def take_is_prefix)

lemma length_py_prefix: "0 \<le> n \<Longrightarrow> int (length (py_prefix n xs)) \<le> n"
  by (simp add: py_prefix_def)

lemma sorted_sort_by_score:
  "sorted_wrt (\<lambda>a b. score_key b \<le> score_key a) (sort_by_score docs)"
proof -
  have "sorted (map (\<lambda>x. - score_key x) (sort_by_score docs))"
    unfolding sort_by_score_def by (rule sorted_sort_key)
  then show ?thesis by (simp add: sorted_map)
qed

lemma sort_by_score_stable:
  "filter (\<lambda>x. score_key x = k) (sort_by_score docs) = filter (\<lambda>x. score_key x = k) docs"
proof -
  have "filter (\<lambda>x. - score_key x = - k) (sort_key (\<lambda>x. - score_key x) docs)
        = filter (\<lambda>x. - score_key x = - k) docs"
    by (rule sort_key_stable)
  then show ?thesis by (simp add: sort_by_score_def)
qed

lemma sorted_py_prefix:
  "sorted_wrt P xs \<Longrightarrow> sorted_wrt P (py_prefix n xs)"
  by (simp add: py_prefix_def sorted_wrt_take)

text \<open>
  Claim C8. For every query and every combination of index hits and web results, with a
  limit that is not negative, the retriever returns a list of at most \<open>limit\<close> entries,
  sorted non-increasing by relevance score (a missing score counting as 0); the sort is
  stable: the entries of any one score appear in their discovery order, index hits before
  web documents.
\<close>

theorem retrieve_bounded_sorted_stable:
  assumes emb: "get_embedding deps q = Inr v"
    and idx: "qdrant_search deps v limit = Inr hits"
    and web: "web_documents deps q limit iw = Inr webs"
    and lim: "0 \<le> limit"
  shows "\<exists>out. retrieve deps q limit iw = Inr out
           \<and> int (length out) \<le> limit
           \<and> sorted_wrt (\<lambda>a b. score_key b \<le> score_key a) out
           \<and> (\<forall>k. prefix (filter (\<lambda>x. score_key x = k) out)
                        (filter (\<lambda>x. score_key x = k) (map hit_document hits @ webs)))"
proof -
  let ?all = "map hit_document hits @ webs"
  let ?out = "py_prefix limit (sort_by_score ?all)"
  have r: "retrieve deps q limit iw = Inr ?out"
    using emb idx web by (rule retrieve_answers)
  have len: "int (length ?out) \<le> limit" using lim by (rule length_py_prefix)
  have srt: "sorted_wrt (\<lambda>a b. score_key b \<le> score_key a) ?out"
    by (rule sorted_py_prefix) (rule sorted_sort_by_score)
  have stab: "prefix (filter (\<lambda>x. score_key x = k) ?out) (filter (\<lambda>x. score_key x = k) ?all)" for k
  proof -
    have "prefix (filter (\<lambda>x. score_key x = k) ?out)
                 (filter (\<lambda>x. score_key x = k) (sort_by_score ?all))"
      by (rule filter_mono_prefix) (rule py_prefix_is_prefix)
    then show ?thesis by (simp only: sort_by_score_stable)
  qed
  from r len srt stab show ?thesis by blast
qed

lemma mixed_web:
  "web_documents (answering mixed_hits mixed_pages ''w2.org'') ''q'' 4 True =
     Inr [web_document (found_page ''w1'') ''page'', web_document (found_page ''w3'') ''page'']"
  by (simp add: web_documents_def search_and_extract_def search_def extract_content_def
      answering_def mixed_pages_def found_page_def)

theorem retrieve_bounded_sorted_stable_witness:
  "retrieve (answering mixed_hits mixed_pages ''w2.org'') ''q'' 4 True =
     Inr [hit_document (index_hit ''b'' 0.9), hit_document (index_hit ''a'' 0.6),
          hit_document (index_hit ''c'' 0), web_document (found_page ''w1'') ''page'']
   \<and> (0::int) \<le> 4"
proof -
  have emb: "get_embedding (answering mixed_hits mixed_pages ''w2.org'') ''q'' = Inr [1, 0]"
    by (simp add: answering_def)
  have idx: "qdrant_search (answering mixed_hits mixed_pages ''w2.org'') [1, 0] 4 = Inr mixed_hits"
    by (simp add: answering_def)
  have lim: "(0::int) \<le> 4" by simp
  have val: "py_prefix 4 (sort_by_score (map hit_document mixed_hits @
        [web_document (found_page ''w1'') ''page'', web_document (found_page ''w3'') ''page'']))
     = [hit_document (index_hit ''b'' 0.9), hit_document (index_hit ''a'' 0.6),
          hit_document (index_hit ''c'' 0), web_document (found_page ''w1'') ''page'']"
    by (simp add: py_prefix_def sort_by_score_def score_key_def mixed_hits_def hit_document_def
        index_hit_def web_document_def titled_def)
  show ?thesis
    using retrieve_bounded_sorted_stable [OF emb idx mixed_web lim]
    unfolding retrieve_answers [OF emb idx mixed_web] val by simp
qed

lemma mset_sort_by_score: "mset (sort_by_score docs) = mset docs"
  by (simp add: sort_by_score_def)

lemma py_prefix_all: "int (length xs) \<le> n \<Longrightarrow> py_prefix n xs = xs"
  by (simp add: py_prefix_def)

text \<open>
  Claim C2 as stated fails: the retriever has no deduplication step. With index hits titled
  \<open>Transformers\<close> (score 0.8) and \<open>transformers \<close> (score 0.55), whose normalised titles
  are equal, it returns both entries.
\<close>

theorem retrieve_twin_titles_counterexample:
  "retrieve (answering twin_hits [] '''') ''transformers'' 10 True =
     Inr [hit_document (index_hit ''Transformers'' 0.8),
          hit_document (index_hit ''transformers '' 0.55)]
   \<and> normalized_title (hit_document (index_hit ''Transformers'' 0.8)) =
     normalized_title (hit_document (index_hit ''transformers '' 0.55))"
  by (simp add: retrieve_def answering_def twin_hits_def web_documents_def
      search_and_extract_def search_def py_prefix_def sort_by_score_def score_key_def
      hit_document_def index_hit_def titled_def normalized_title_def spec_normalize_title_def
      lower_char_def is_space_def get_or_def)

text \<open>
  Claim C2, amended. The retriever never merges entries: whenever the index and the web
  search answer, its output is the first \<open>limit\<close> entries of the stably score-sorted
  concatenation of index documents and web documents, whatever their titles; when
  \<open>limit\<close> is at least the number of retrieved entries, the output holds every one of
  them (as a multiset), so entries with colliding normalised titles all remain.
\<close>

theorem retrieve_never_merges:
  assumes emb: "get_embedding deps q = Inr v"
    and idx: "qdrant_search deps v limit = Inr hits"
    and web: "web_documents deps q limit iw = Inr webs"
  shows "retrieve deps q limit iw =
           Inr (py_prefix limit (sort_by_score (map hit_document hits @ webs)))
         \<and> (int (length hits + length webs) \<le> limit \<longrightarrow>
              (\<exists>out. retrieve deps q limit iw = Inr out
                 \<and> mset out = mset (map hit_document hits @ webs)))"
proof -
  let ?all = "map hit_document hits @ webs"
  have r: "retrieve deps q limit iw = Inr (py_prefix limit (sort_by_score ?all))"
    using emb idx web by (rule retrieve_answers)
  have "mset (py_prefix limit (sort_by_score ?all)) = mset ?all"
    if "int (length hits + length webs) \<le> limit"
  proof -
    have "length (sort_by_score ?all) = length hits + length webs"
      by (simp add: sort_by_score_def)
    with that have "py_prefix limit (sort_by_score ?all) = sort_by_score ?all"
      by (simp add: py_prefix_all)
    then show ?thesis by (simp add: mset_sort_by_score)
  qed
  with r show ?thesis by simp
qed

theorem retrieve_never_merges_witness:
  "int (length twin_hits + length ([]::document list)) \<le> 10
   \<and> (\<exists>out. retrieve (answering twin_hits [] '''') ''transformers'' 10 True = Inr out
         \<and> mset out = mset (map hit_document twin_hits @ []))"
proof -
  have emb: "get_embedding (answering twin_hits [] '''') ''transformers'' = Inr [1, 0]"
    by (simp add: answering_def)
  have idx: "qdrant_search (answering twin_hits [] '''') [1, 0] 10 = Inr twin_hits"
    by (simp add: answering_def)
  have web: "web_documents (answering twin_hits [] '''') ''transformers'' 10 True = Inr []"
    by (simp add: web_documents_def search_and_extract_def search_def answering_def)
  have small: "int (length twin_hits + length ([]::document list)) \<le> 10"
    by (simp add: twin_hits_def)
  have imp: "int (length twin_hits + length ([]::document list)) \<le> 10 \<longrightarrow>
      (\<exists>out. retrieve (answering twin_hits [] '''') ''transformers'' 10 True = Inr out
         \<and> mset out = mset (map hit_document twin_hits @ []))"
    using retrieve_never_merges [OF emb idx web] by (rule conjunct2)
  from imp small have "\<exists>out. retrieve (answering twin_hits [] '''') ''transformers'' 10 True = Inr out
         \<and> mset out = mset (map hit_document twin_hits @ [])"
    by (rule mp)
  with small show ?thesis by (rule conjI)
qed


text \<open>
  Claim C3 as stated fails: a web document carries no relevance score. With one web result
  and an empty index, the retriever returns the web document and its metadata has no
  \<open>relevance_score\<close>.
\<close>

theorem web_document_unscored_counterexample:
  "retrieve (answering [] [found_page ''w1''] '''') ''q'' 10 True =
     Inr [web_document (found_page ''w1'') ''page'']
   \<and> relevance_score (metadata (web_document (found_page ''w1'') ''page'')) = None"
  by (simp add: retrieve_def answering_def web_documents_def search_and_extract_def search_def
      extract_content_def py_prefix_def sort_by_score_def found_page_def web_document_def)

lemma extract_each_unscored:
  "d \<in> set (extract_each deps results) \<Longrightarrow>
     source (metadata d) = Some ''web'' \<and> relevance_score (metadata d) = None"
  by (induction results) (auto simp: web_document_def split: sum.splits)

lemma set_py_prefix: "set (py_prefix n xs) \<subseteq> set xs"
  by (simp add: py_prefix_def set_take_subset)

lemma set_sort_by_score: "set (sort_by_score docs) = set docs"
  by (simp add: sort_by_score_def)

text \<open>
  Claim C3, amended. For every retrieval with web search included that returns, every web
  document is tagged \<open>source = web\<close> and carries no relevance score, before the sort and
  after it: the sort only reads a missing score as 0 and writes nothing, and every entry
  of the output tagged \<open>web\<close> is one of these unscored web documents.
\<close>

theorem web_documents_stay_unscored:
  assumes "retrieve deps q limit True = Inr out"
  shows "\<exists>webs. search_and_extract deps q limit = Inr webs
           \<and> (\<forall>d \<in> set webs. source (metadata d) = Some ''web''
                  \<and> relevance_score (metadata d) = None \<and> score_key d = 0)
           \<and> (\<forall>d \<in> set out. source (metadata d) = Some ''web'' \<longrightarrow>
                  d \<in> set webs \<and> relevance_score (metadata d) = None)"
proof -
  from assms obtain v hits webs where
    web: "web_documents deps q limit True = Inr webs"
    and out: "out = py_prefix limit (sort_by_score (map hit_document hits @ webs))"
    using retrieve_answered by blast
  from web have se: "search_and_extract deps q limit = Inr webs"
    by (simp add: web_documents_def)
  then obtain results where webs: "webs = extract_each deps results"
    by (auto simp: search_and_extract_def split: sum.splits)
  have a: "source (metadata d) = Some ''web'' \<and> relevance_score (metadata d) = None
      \<and> score_key d = 0" if "d \<in> set webs" for d
    using that extract_each_unscored [of d deps results] by (simp add: webs score_key_def)
  have b: "d \<in> set webs \<and> relevance_score (metadata d) = None"
    if "d \<in> set out" and w: "source (metadata d) = Some ''web''" for d
  proof -
    from that(1) have "d \<in> set (map hit_document hits @ webs)"
      using set_py_prefix [of limit "sort_by_score (map hit_document hits @ webs)"]
      by (auto simp: out set_sort_by_score)
    moreover have "d \<notin> set (map hit_document hits)"
      using w by (auto simp: hit_document_def)
    ultimately have "d \<in> set webs" by simp
    with a show ?thesis by simp
  qed
  from se a b show ?thesis by blast
qed

theorem web_documents_stay_unscored_witness:
  "retrieve (answering mixed_hits mixed_pages ''w2.org'') ''q'' 4 True =
     Inr [hit_document (index_hit ''b'' 0.9), hit_document (index_hit ''a'' 0.6),
          hit_document (index_hit ''c'' 0), web_document (found_page ''w1'') ''page'']
   \<and> search_and_extract (answering mixed_hits mixed_pages ''w2.org'') ''q'' 4 =
       Inr [web_document (found_page ''w1'') ''page'', web_document (found_page ''w3'') ''page'']
   \<and> source (metadata (web_document (found_page ''w1'') ''page'')) = Some ''web''
   \<and> relevance_score (metadata (web_document (found_page ''w1'') ''page'')) = None
   \<and> score_key (web_document (found_page ''w1'') ''page'') = 0"
proof -
  have r: "retrieve (answering mixed_hits mixed_pages ''w2.org'') ''q'' 4 True =
     Inr [hit_document (index_hit ''b'' 0.9), hit_document (index_hit ''a'' 0.6),
          hit_document (index_hit ''c'' 0), web_document (found_page ''w1'') ''page'']"
    by (simp add: retrieve_def answering_def web_documents_def search_and_extract_def search_def
      extract_content_def py_prefix_def sort_by_score_def found_page_def web_document_def
      mixed_hits_def mixed_pages_def hit_document_def index_hit_def titled_def score_key_def)
  from web_documents_stay_unscored [OF r] obtain webs where
    se: "search_and_extract (answering mixed_hits mixed_pages ''w2.org'') ''q'' 4 = Inr webs"
    and un: "\<forall>d \<in> set webs. source (metadata d) = Some ''web''
                  \<and> relevance_score (metadata d) = None \<and> score_key d = 0"
    and out: "\<forall>d \<in> set [hit_document (index_hit ''b'' 0.9), hit_document (index_hit ''a'' 0.6),
          hit_document (index_hit ''c'' 0), web_document (found_page ''w1'') ''page''].
        source (metadata d) = Some ''web'' \<longrightarrow> d \<in> set webs \<and> relevance_score (metadata d) = None"
    by (elim exE conjE)
  have w: "webs = [web_document (found_page ''w1'') ''page'', web_document (found_page ''w3'') ''page'']"
    using se by (simp add: search_and_extract_def search_def extract_content_def answering_def
        mixed_pages_def found_page_def)
  have "web_document (found_page ''w1'') ''page'' \<in> set webs" by (simp add: w)
  with un have "source (metadata (web_document (found_page ''w1'') ''page'')) = Some ''web''
      \<and> relevance_score (metadata (web_document (found_page ''w1'') ''page'')) = None
      \<and> score_key (web_document (found_page ''w1'') ''page'') = 0"
    by (rule bspec)
  with r se w show ?thesis by simp
qed


text \<open>
  Claim C4 as stated fails: with the index answering and the web search raising, the
  retriever raises; it does not return the index documents.
\<close>

theorem web_failure_raises_counterexample:
  "get_embedding web_down ''q'' = Inr [1, 0]
   \<and> qdrant_search web_down [1, 0] 10 = Inr [index_hit ''a'' 0.9]
   \<and> http_search web_down ''q'' 10 = Inl (Exception ''no network'')
   \<and> retrieve web_down ''q'' 10 True =
     Inl (Exception (''Error retrieving documents: Error in search and extract: '' @
                     ''Error searching web: no network''))"
  by (simp add: retrieve_def retrieval_error_def web_down_def answering_def web_documents_def
      search_and_extract_def search_def)

lemma extract_each_isolated:
  "extract_each deps results =
     concat (map (\<lambda>res. case http_extract deps (link res) of
                           Inl e \<Rightarrow> [] | Inr content \<Rightarrow> [web_document res content]) results)"
  by (induction results) (simp_all add: extract_content_def split: sum.splits)

text \<open>
  Claim C4, amended. When the index answers and the web-search call raises, the retriever
  raises \<open>Error retrieving documents: Error in search and extract: Error searching web: \<dots>\<close>
  and returns no documents. When the web search answers, each result is fetched on its own:
  a result whose extraction raises is dropped, and every other result yields its document,
  in the order of the results.
\<close>

theorem web_failure_raises_extraction_isolated:
  "(get_embedding deps q = Inr v \<and> qdrant_search deps v limit = Inr hits
      \<and> http_search deps q limit = Inl e \<longrightarrow>
        retrieve deps q limit True =
          Inl (Exception (''Error retrieving documents: Error in search and extract: '' @
                          ''Error searching web: '' @ str e)))
   \<and> (http_search deps q limit = Inr results \<longrightarrow>
        search_and_extract deps q limit =
          Inr (concat (map (\<lambda>res. case http_extract deps (link res) of
                                     Inl e \<Rightarrow> []
                                   | Inr content \<Rightarrow> [web_document res content]) results)))"
  by (simp add: retrieve_def retrieval_error_def web_documents_def search_and_extract_def
      search_def extract_each_isolated)

theorem web_failure_raises_extraction_isolated_witness:
  "retrieve web_down ''q'' 10 True =
     Inl (Exception (''Error retrieving documents: Error in search and extract: '' @
                     ''Error searching web: no network''))
   \<and> search_and_extract (answering mixed_hits mixed_pages ''w2.org'') ''q'' 4 =
       Inr [web_document (found_page ''w1'') ''page'', web_document (found_page ''w3'') ''page'']"
  using web_failure_raises_extraction_isolated
          [of web_down "''q''" "[1, 0]" 10 "[index_hit ''a'' 0.9]" "Exception ''no network''"]
        web_failure_raises_extraction_isolated
          [of "answering mixed_hits mixed_pages ''w2.org''" "''q''" "[1, 0]" 4 mixed_hits _
              mixed_pages]
  by (simp add: web_down_def answering_def mixed_pages_def found_page_def)


section \<open>Critic scores\<close>

lemma clamp_in_unit_interval:
  "sc \<noteq> NaN \<Longrightarrow> in_unit_interval (py_min (py_max sc (Fin 0)) (Fin 1))"
  by (cases sc) (auto simp: in_unit_interval_def py_min_def py_max_def py_gt_def)

lemma clamp_nan: "py_min (py_max NaN (Fin 0)) (Fin 1) = NaN"
  by (simp add: py_min_def py_max_def py_gt_def)

text \<open>
  Claim C9 at the failing input: a reply that Python's \<^verbatim>\<open>float\<close> parses to NaN (the text
  \<^verbatim>\<open>nan\<close>). Every comparison with NaN is false, so \<^verbatim>\<open>min(max(score, 0), 1)\<close> returns NaN:
  the three component scores and the overall score of the evaluation are NaN, which is
  not in the interval from 0 to 1.
\<close>

theorem nan_reply_escapes_clamp:
  "fst (evaluate_quality (critic_replying NaN) (scored_doc ''a'' (Some 0.9))
          (summary_of ''a'') no_errors) = NaN
   \<and> fst (evaluate_relevance (critic_replying NaN) (scored_doc ''a'' (Some 0.9))
          (summary_of ''a'') no_errors) = NaN
   \<and> fst (evaluate_methodology (critic_replying NaN) (scored_doc ''a'' (Some 0.9))
          no_errors) = NaN
   \<and> map overall_score (evaluation_list (fst (critic_process (critic_replying NaN)
          [scored_doc ''a'' (Some 0.9)] [summary_of ''a''] no_errors))) = [NaN]
   \<and> \<not> in_unit_interval NaN"
  by (simp add: evaluate_quality_def evaluate_relevance_def evaluate_methodology_def
      critic_replying_def clamp_nan critic_process_def evaluate_pair_def generate_critique_def
      calculate_average_scores_def in_unit_interval_def numeral_3_eq_3 py_sum_def Let_def)

text \<open>
  For every reply other than NaN the clamp does bring the score into the interval, an
  exception gives 0, and the mean of three scores of the interval lies in it.
\<close>

lemma zero_in_unit_interval: "in_unit_interval (Fin 0)"
  by (simp add: in_unit_interval_def)

lemma in_unit_interval_Fin: "in_unit_interval x = (\<exists>a. x = Fin a \<and> 0 \<le> a \<and> a \<le> 1)"
  by (cases x) (auto simp: in_unit_interval_def)

lemma scores_in_range_unless_nan:
  shows "quality_llm deps doc sm \<noteq> Inr NaN \<Longrightarrow>
           in_unit_interval (fst (evaluate_quality deps doc sm st))"
    and "relevance_llm deps doc sm \<noteq> Inr NaN \<Longrightarrow>
           in_unit_interval (fst (evaluate_relevance deps doc sm st))"
    and "methodology_llm deps doc \<noteq> Inr NaN \<Longrightarrow>
           in_unit_interval (fst (evaluate_methodology deps doc st))"
proof -
  show "in_unit_interval (fst (evaluate_quality deps doc sm st))"
    if "quality_llm deps doc sm \<noteq> Inr NaN"
    using that by (cases "quality_llm deps doc sm")
      (simp_all add: evaluate_quality_def clamp_in_unit_interval zero_in_unit_interval)
  show "in_unit_interval (fst (evaluate_relevance deps doc sm st))"
    if "relevance_llm deps doc sm \<noteq> Inr NaN"
    using that by (cases "relevance_llm deps doc sm")
      (simp_all add: evaluate_relevance_def clamp_in_unit_interval zero_in_unit_interval)
  show "in_unit_interval (fst (evaluate_methodology deps doc st))"
    if "methodology_llm deps doc \<noteq> Inr NaN"
    using that by (cases "methodology_llm deps doc")
      (simp_all add: evaluate_methodology_def clamp_in_unit_interval zero_in_unit_interval)
qed

lemma mean_in_unit_interval:
  assumes "in_unit_interval q" and "in_unit_interval r" and "in_unit_interval m"
  shows "\<exists>v. py_truediv (py_add (py_add q r) m) 3 = Some v \<and> in_unit_interval v"
proof -
  from assms obtain a b c where
    "q = Fin a" "r = Fin b" "m = Fin c" "0 \<le> a" "a \<le> 1" "0 \<le> b" "b \<le> 1" "0 \<le> c" "c \<le> 1"
    by (auto simp: in_unit_interval_Fin)
  then show ?thesis by (simp add: numeral_3_eq_3 in_unit_interval_def)
qed

section \<open>Critic pairing\<close>

lemma evaluate_pair_any_state:
  assumes "evaluate_pair deps doc sm sa = Inr (ev, sb)"
  shows "\<exists>st1. evaluate_pair deps doc sm st = Inr (ev, st1)"
  using assms
  by (auto simp: evaluate_pair_def evaluate_quality_def evaluate_relevance_def
      evaluate_methodology_def generate_critique_def
      split: sum.splits option.splits)

lemma evaluate_pair_fields:
  assumes "evaluate_pair deps doc sm sa = Inr (ev, sb)"
  shows "eval_title ev = get_or (title (metadata doc)) ''''
    \<and> quality_score ev = fst (evaluate_quality deps doc sm st)
    \<and> eval_relevance_score ev = fst (evaluate_relevance deps doc sm st)
    \<and> methodology_score ev = fst (evaluate_methodology deps doc st)
    \<and> py_truediv (py_add (py_add (quality_score ev) (eval_relevance_score ev))
          (methodology_score ev)) 3 = Some (overall_score ev)
    \<and> critique ev = fst (generate_critique deps doc sm st)"
  using assms
  by (auto simp: evaluate_pair_def evaluate_quality_def evaluate_relevance_def
      evaluate_methodology_def generate_critique_def
      split: sum.splits option.splits)

lemma evaluate_pairs_nth:
  assumes "evaluate_pairs deps pairs st = Inr (evals, st1)" and "i < length pairs"
  shows "length evals = length pairs
    \<and> (\<exists>sa sb. evaluate_pair deps (fst (pairs ! i)) (snd (pairs ! i)) sa = Inr (evals ! i, sb))"
  using assms
proof (induction pairs arbitrary: st evals i)
  case Nil
  then show ?case by simp
next
  case (Cons p pairs)
  obtain doc sm where p: "p = (doc, sm)" by (cases p)
  from Cons.prems(1) obtain ev sx rest where
    a: "evaluate_pair deps doc sm st = Inr (ev, sx)"
    and b: "evaluate_pairs deps pairs sx = Inr (rest, st1)"
    and e: "evals = ev # rest"
    by (auto simp: p split: sum.splits)
  show ?case
  proof (cases i)
    case 0
    have len: "length rest = length pairs"
    proof (cases pairs)
      case Nil
      with b show ?thesis by simp
    next
      case (Cons q qs)
      then have "0 < length pairs" by simp
      from Cons.IH [OF b this] show ?thesis by blast
    qed
    with 0 a show ?thesis by (auto simp: p e)
  next
    case (Suc j)
    with Cons.prems(2) have j: "j < length pairs" by simp
    from Cons.IH [OF b j] show ?thesis by (simp add: e Suc)
  qed
qed

lemma py_truediv_3: "\<exists>v. py_truediv x 3 = Some v"
  by (cases x) (simp_all add: numeral_3_eq_3)

lemma evaluate_pair_returns:
  "\<exists>ev st1. evaluate_pair deps doc sm st = Inr (ev, st1)
      \<and> eval_title ev = get_or (title (metadata doc)) ''''"
proof -
  obtain q st1 where a: "evaluate_quality deps doc sm st = (q, st1)" by fastforce
  obtain r st2 where b: "evaluate_relevance deps doc sm st1 = (r, st2)" by fastforce
  obtain m st3 where c: "evaluate_methodology deps doc st2 = (m, st3)" by fastforce
  obtain ov where d: "py_truediv (py_add (py_add q r) m) 3 = Some ov"
    using py_truediv_3 by blast
  obtain cr st4 where e: "generate_critique deps doc sm st3 = (cr, st4)" by fastforce
  show ?thesis by (simp add: evaluate_pair_def a b c d e)
qed

lemma evaluate_pairs_returns:
  "\<exists>evals st1. evaluate_pairs deps pairs st = Inr (evals, st1)
      \<and> map eval_title evals = map (\<lambda>p. get_or (title (metadata (fst p))) '''') pairs"
proof (induction pairs arbitrary: st)
  case Nil
  show ?case by simp
next
  case (Cons p pairs)
  obtain doc sm where p: "p = (doc, sm)" by (cases p)
  obtain ev st1 where a: "evaluate_pair deps doc sm st = Inr (ev, st1)"
    and t: "eval_title ev = get_or (title (metadata doc)) ''''"
    using evaluate_pair_returns by blast
  obtain rest st2 where b: "evaluate_pairs deps pairs st1 = Inr (rest, st2)"
    and ts: "map eval_title rest = map (\<lambda>p. get_or (title (metadata (fst p))) '''') pairs"
    using Cons.IH by blast
  show ?case by (simp add: p a b t ts)
qed

text \<open>
  Claim C10. The critic pairs documents and summaries by position and produces exactly
  \<open>min (length documents) (length summaries)\<close> evaluations. The i-th evaluation is the one
  built from the i-th document and the i-th summary: it is what one iteration of the loop
  returns for that pair, its title is the document's, its three scores are those of the
  scoring functions on that document and that summary, its overall score is their mean
  and its critique is the one generated for the pair. When either list is empty the critic
  returns no evaluation and an empty \<open>average_scores\<close> dictionary, without raising and
  without recording an error.
\<close>

theorem critic_process_pairs:
  "length (evaluation_list (fst (critic_process deps docs sms st))) =
     min (length docs) (length sms)
   \<and> map eval_title (evaluation_list (fst (critic_process deps docs sms st))) =
       map (\<lambda>p. get_or (title (metadata (fst p))) '''') (zip docs sms)
   \<and> (\<forall>i < min (length docs) (length sms).
        (\<exists>st1. evaluate_pair deps (docs ! i) (sms ! i) st =
                 Inr (evaluation_list (fst (critic_process deps docs sms st)) ! i, st1))
        \<and> quality_score (evaluation_list (fst (critic_process deps docs sms st)) ! i) =
            fst (evaluate_quality deps (docs ! i) (sms ! i) st)
        \<and> eval_relevance_score (evaluation_list (fst (critic_process deps docs sms st)) ! i) =
            fst (evaluate_relevance deps (docs ! i) (sms ! i) st)
        \<and> methodology_score (evaluation_list (fst (critic_process deps docs sms st)) ! i) =
            fst (evaluate_methodology deps (docs ! i) st)
        \<and> py_truediv
             (py_add
               (py_add (quality_score (evaluation_list (fst (critic_process deps docs sms st)) ! i))
                 (eval_relevance_score
                   (evaluation_list (fst (critic_process deps docs sms st)) ! i)))
               (methodology_score (evaluation_list (fst (critic_process deps docs sms st)) ! i)))
             3 = Some (overall_score (evaluation_list (fst (critic_process deps docs sms st)) ! i))
        \<and> critique (evaluation_list (fst (critic_process deps docs sms st)) ! i) =
            fst (generate_critique deps (docs ! i) (sms ! i) st))
   \<and> (docs = [] \<or> sms = [] \<longrightarrow>
        critic_process deps docs sms st = (\<lparr>evaluation_list = [], average_scores = []\<rparr>, st))"
proof -
  obtain evals st1 where a: "evaluate_pairs deps (zip docs sms) st = Inr (evals, st1)"
    and ts: "map eval_title evals = map (\<lambda>p. get_or (title (metadata (fst p))) '''') (zip docs sms)"
    using evaluate_pairs_returns by blast
  obtain avg st2 where b: "calculate_average_scores evals st1 = (avg, st2)" by fastforce
  have res: "evaluation_list (fst (critic_process deps docs sms st)) = evals"
    by (simp add: critic_process_def a b)
  have "length (map eval_title evals) = length (zip docs sms)"
    unfolding ts by simp
  then have one: "length evals = min (length docs) (length sms)"
    by simp
  have each: "(\<exists>st1. evaluate_pair deps (docs ! i) (sms ! i) st = Inr (evals ! i, st1))
        \<and> quality_score (evals ! i) = fst (evaluate_quality deps (docs ! i) (sms ! i) st)
        \<and> eval_relevance_score (evals ! i) = fst (evaluate_relevance deps (docs ! i) (sms ! i) st)
        \<and> methodology_score (evals ! i) = fst (evaluate_methodology deps (docs ! i) st)
        \<and> py_truediv (py_add (py_add (quality_score (evals ! i))
              (eval_relevance_score (evals ! i))) (methodology_score (evals ! i))) 3
            = Some (overall_score (evals ! i))
        \<and> critique (evals ! i) = fst (generate_critique deps (docs ! i) (sms ! i) st)"
    if i: "i < min (length docs) (length sms)" for i
  proof -
    from i have iz: "i < length (zip docs sms)" by simp
    from i have nth: "zip docs sms ! i = (docs ! i, sms ! i)" by simp
    from evaluate_pairs_nth [OF a iz] obtain sa sb where
      ep: "evaluate_pair deps (docs ! i) (sms ! i) sa = Inr (evals ! i, sb)"
      by (auto simp: nth)
    from evaluate_pair_any_state [OF ep] evaluate_pair_fields [OF ep]
    show ?thesis by blast
  qed
  have two: "critic_process deps docs sms st = (\<lparr>evaluation_list = [], average_scores = []\<rparr>, st)"
    if "docs = [] \<or> sms = []"
  proof -
    from that have z: "zip docs sms = []" by auto
    show ?thesis unfolding critic_process_def z
      by (simp add: calculate_average_scores_def)
  qed
  show ?thesis unfolding res using one ts each two by blast
qed

theorem critic_process_pairs_witness:
  "critic_process (critic_replying (Fin 0.7)) [] [summary_of ''a''] no_errors =
     (\<lparr>evaluation_list = [], average_scores = []\<rparr>, no_errors)
   \<and> map eval_title (evaluation_list (fst (critic_process (critic_replying (Fin 0.7)) graph_docs
         [summary_of ''a'', summary_of ''b''] no_errors))) = [''a'', ''b'']
   \<and> quality_score (evaluation_list (fst (critic_process critic_by_summary
         [scored_doc ''x'' (Some 0.9), scored_doc ''y'' (Some 0.6)]
         [summary_of ''b'', summary_of ''a''] no_errors)) ! 0) = Fin 0
   \<and> quality_score (evaluation_list (fst (critic_process critic_by_summary
         [scored_doc ''x'' (Some 0.9), scored_doc ''y'' (Some 0.6)]
         [summary_of ''b'', summary_of ''a''] no_errors)) ! 1) = Fin 1"
proof -
  have i0: "(0::nat) < min (length [scored_doc ''x'' (Some 0.9), scored_doc ''y'' (Some 0.6)])
      (length [summary_of ''b'', summary_of ''a''])" by simp
  have i1: "(1::nat) < min (length [scored_doc ''x'' (Some 0.9), scored_doc ''y'' (Some 0.6)])
      (length [summary_of ''b'', summary_of ''a''])" by simp
  note t = critic_process_pairs [of critic_by_summary
      "[scored_doc ''x'' (Some 0.9), scored_doc ''y'' (Some 0.6)]"
      "[summary_of ''b'', summary_of ''a'']" no_errors]
  from t i0 have q0: "quality_score (evaluation_list (fst (critic_process critic_by_summary
         [scored_doc ''x'' (Some 0.9), scored_doc ''y'' (Some 0.6)]
         [summary_of ''b'', summary_of ''a''] no_errors)) ! 0) =
      fst (evaluate_quality critic_by_summary
         ([scored_doc ''x'' (Some 0.9), scored_doc ''y'' (Some 0.6)] ! 0)
         ([summary_of ''b'', summary_of ''a''] ! 0) no_errors)"
    by blast
  from t i1 have q1: "quality_score (evaluation_list (fst (critic_process critic_by_summary
         [scored_doc ''x'' (Some 0.9), scored_doc ''y'' (Some 0.6)]
         [summary_of ''b'', summary_of ''a''] no_errors)) ! 1) =
      fst (evaluate_quality critic_by_summary
         ([scored_doc ''x'' (Some 0.9), scored_doc ''y'' (Some 0.6)] ! 1)
         ([summary_of ''b'', summary_of ''a''] ! 1) no_errors)"
    by blast
  have v0: "fst (evaluate_quality critic_by_summary
         ([scored_doc ''x'' (Some 0.9), scored_doc ''y'' (Some 0.6)] ! 0)
         ([summary_of ''b'', summary_of ''a''] ! 0) no_errors) = Fin 0"
    by (simp add: evaluate_quality_def critic_by_summary_def summary_of_def py_min_def
        py_max_def py_gt_def)
  have v1: "fst (evaluate_quality critic_by_summary
         ([scored_doc ''x'' (Some 0.9), scored_doc ''y'' (Some 0.6)] ! 1)
         ([summary_of ''b'', summary_of ''a''] ! 1) no_errors) = Fin 1"
    by (simp add: evaluate_quality_def critic_by_summary_def summary_of_def py_min_def
        py_max_def py_gt_def)
  have e: "critic_process (critic_replying (Fin 0.7)) [] [summary_of ''a''] no_errors =
     (\<lparr>evaluation_list = [], average_scores = []\<rparr>, no_errors)
   \<and> map eval_title (evaluation_list (fst (critic_process (critic_replying (Fin 0.7)) graph_docs
         [summary_of ''a'', summary_of ''b''] no_errors))) = [''a'', ''b'']"
    using critic_process_pairs [of "critic_replying (Fin 0.7)" "[]" "[summary_of ''a'']" no_errors]
      critic_process_pairs [of "critic_replying (Fin 0.7)" graph_docs
        "[summary_of ''a'', summary_of ''b'']" no_errors]
    by (simp add: graph_docs_def scored_doc_def titled_def get_or_def)
  from e q0 q1 v0 v1 show ?thesis by simp
qed


section \<open>A run whose retrieval fails\<close>

text \<open>
  Claim C5 as stated fails in its last part: with an unreachable index the run ends with
  no document and with an empty \<open>errors\<close> list.
\<close>

theorem retrieval_failure_unreported_counterexample:
  "retrieve (retriever_of offline_app) ''graph neural networks'' 10 True =
     Inl (Exception ''Error retrieving documents: connection refused'')
   \<and> documents (fst (process_query (app_agents offline_app) ''graph neural networks''
        fresh_app_state)) = []
   \<and> errors (fst (process_query (app_agents offline_app) ''graph neural networks''
        fresh_app_state)) = []"
  by (simp add: process_query_def app_agents_def offline_app_def index_down_def answering_def
      research_node_def summarize_node_def evaluate_node_def synthesize_node_def write_node_def
      initial_state_def research_process_def retrieve_def retrieval_error_def
      summarizer_process_def critic_process_def calculate_average_scores_def
      cross_document_synthesis_def writer_process_def generate_executive_summary_def
      generate_methodology_section_def generate_findings_section_def
      generate_analysis_section_def generate_recommendations_def save_report_def
      fresh_app_state_def add_error_def model_down_def Let_def)

lemma research_node_retrieval_failure:
  assumes "retrieve (retriever_of deps) q 10 True = Inl e"
  shows "research_node (app_agents deps) (initial_state q) w =
          (initial_state q,
           w\<lparr>research_st := add_error (''Error processing query: '' @ str e) (research_st w)\<rparr>)"
  using assms
  by (simp add: research_node_def app_agents_def research_process_def initial_state_def)

lemma summarize_node_empty:
  "summarize_node (app_agents deps) (initial_state q) w = (initial_state q, w)"
  by (simp add: summarize_node_def app_agents_def summarizer_process_def initial_state_def)

lemma evaluate_node_empty:
  "evaluate_node (app_agents deps) (initial_state q) w =
     ((initial_state q)\<lparr>evaluations := Some \<lparr>evaluation_list = [], average_scores = []\<rparr>\<rparr>, w)"
  by (simp add: evaluate_node_def app_agents_def critic_process_def
      calculate_average_scores_def initial_state_def)

lemma synthesize_node_keeps:
  "\<exists>w1. synthesize_node (app_agents deps) s w =
     (s\<lparr>synthesis := fst (cross_document_synthesis (summarizer_of deps) (summaries s)
                             (summarizer_st w))\<rparr>, w1)
    \<and> research_st w1 = research_st w"
  by (cases "cross_document_synthesis (summarizer_of deps) (summaries s) (summarizer_st w)")
     (simp add: synthesize_node_def app_agents_def)

lemma writer_process_report:
  "\<exists>rep st1. writer_process deps q docs sms evals synth st = (Some rep, st1)
      \<and> references rep = generate_references docs \<and> report_query rep = q"
  by (simp add: writer_process_def Let_def split: prod.splits)

lemma write_node_keeps:
  "\<exists>rep w1. write_node (app_agents deps) s w = (s\<lparr>report := Some rep\<rparr>, w1)
      \<and> references rep = generate_references (documents s) \<and> report_query rep = query s
      \<and> research_st w1 = research_st w"
proof -
  obtain rep st1 where a: "writer_process (writer_of deps) (query s) (documents s) (summaries s)
      (evaluations s) (synthesis s) (writer_st w) = (Some rep, st1)"
    and b: "references rep = generate_references (documents s)" "report_query rep = query s"
    using writer_process_report by blast
  have "write_node (app_agents deps) s w = (s\<lparr>report := Some rep\<rparr>, w\<lparr>writer_st := st1\<rparr>)"
    by (simp add: write_node_def app_agents_def a)
  moreover have "research_st (w\<lparr>writer_st := st1\<rparr>) = research_st w" by simp
  ultimately show ?thesis using b by blast
qed

text \<open>
  Claim C5, amended. For every run of the application in which the retrieval raises, the
  five stages all return: the final state has no documents and no summaries, its
  evaluations are the empty default (no evaluation, empty average scores), its synthesis is
  what the summarizer produces for no summaries (the model's reply or the empty-shaped
  default), and its report exists with an empty reference list. The final \<open>errors\<close> list is
  empty: the research agent catches the failure and records the message
  \<open>Error processing query: \<dots>\<close> in its own error list only.
\<close>

theorem retrieval_failure_run:
  assumes fails: "retrieve (retriever_of deps) q 10 True = Inl e"
  shows "\<exists>s w1 rep. process_query (app_agents deps) q w = (s, w1)
           \<and> documents s = [] \<and> summaries s = []
           \<and> evaluations s = Some \<lparr>evaluation_list = [], average_scores = []\<rparr>
           \<and> synthesis s = fst (cross_document_synthesis (summarizer_of deps) []
                                   (summarizer_st w))
           \<and> report s = Some rep \<and> references rep = [] \<and> report_query rep = q
           \<and> errors s = []
           \<and> agent_errors (research_st w1) =
               agent_errors (research_st w) @ [''Error processing query: '' @ str e]"
proof -
  define w1 where
    "w1 = w\<lparr>research_st := add_error (''Error processing query: '' @ str e) (research_st w)\<rparr>"
  define s3 where
    "s3 = (initial_state q)\<lparr>evaluations := Some \<lparr>evaluation_list = [], average_scores = []\<rparr>\<rparr>"
  define s4 where
    "s4 = s3\<lparr>synthesis := fst (cross_document_synthesis (summarizer_of deps) (summaries s3)
                                 (summarizer_st w1))\<rparr>"
  have n1: "research_node (app_agents deps) (initial_state q) w = (initial_state q, w1)"
    unfolding w1_def using fails by (rule research_node_retrieval_failure)
  have n2: "summarize_node (app_agents deps) (initial_state q) w1 = (initial_state q, w1)"
    by (rule summarize_node_empty)
  have n3: "evaluate_node (app_agents deps) (initial_state q) w1 = (s3, w1)"
    unfolding s3_def by (rule evaluate_node_empty)
  obtain w4 where n4: "synthesize_node (app_agents deps) s3 w1 = (s4, w4)"
    and r4: "research_st w4 = research_st w1"
    unfolding s4_def using synthesize_node_keeps by blast
  obtain rep w5 where n5: "write_node (app_agents deps) s4 w4 = (s4\<lparr>report := Some rep\<rparr>, w5)"
    and refs: "references rep = generate_references (documents s4)"
    and rq: "report_query rep = query s4"
    and r5: "research_st w5 = research_st w4"
    using write_node_keeps by blast
  have run: "process_query (app_agents deps) q w = (s4\<lparr>report := Some rep\<rparr>, w5)"
    unfolding process_query_def by (simp only: n1 n2 n3 n4 n5 prod.case)
  have fields: "documents s4 = []" "summaries s4 = []" "query s4 = q" "errors s4 = []"
    "evaluations s4 = Some \<lparr>evaluation_list = [], average_scores = []\<rparr>"
    "synthesis s4 = fst (cross_document_synthesis (summarizer_of deps) [] (summarizer_st w))"
    by (simp_all add: s4_def s3_def w1_def initial_state_def)
  have errs: "agent_errors (research_st w5) =
      agent_errors (research_st w) @ [''Error processing query: '' @ str e]"
    unfolding r5 r4 by (simp add: w1_def add_error_def)
  have refs0: "references rep = []"
    unfolding refs by (simp add: fields generate_references_def)
  from run fields errs refs0 rq show ?thesis by simp
qed

theorem retrieval_failure_run_witness:
  "documents (fst (process_query (app_agents offline_app) ''graph neural networks''
      fresh_app_state)) = []
   \<and> summaries (fst (process_query (app_agents offline_app) ''graph neural networks''
      fresh_app_state)) = []
   \<and> evaluations (fst (process_query (app_agents offline_app) ''graph neural networks''
      fresh_app_state)) = Some \<lparr>evaluation_list = [], average_scores = []\<rparr>
   \<and> synthesis (fst (process_query (app_agents offline_app) ''graph neural networks''
      fresh_app_state)) = default_synthesis
   \<and> errors (fst (process_query (app_agents offline_app) ''graph neural networks''
      fresh_app_state)) = []
   \<and> agent_errors (research_st (snd (process_query (app_agents offline_app)
      ''graph neural networks'' fresh_app_state))) =
       [''Error processing query: Error retrieving documents: connection refused'']"
proof -
  have fails: "retrieve (retriever_of offline_app) ''graph neural networks'' 10 True =
     Inl (Exception ''Error retrieving documents: connection refused'')"
    by (simp add: offline_app_def index_down_def answering_def retrieve_def retrieval_error_def)
  from retrieval_failure_run [OF fails, of fresh_app_state] obtain s w1 rep where
    "process_query (app_agents offline_app) ''graph neural networks'' fresh_app_state = (s, w1)"
    "documents s = []" "summaries s = []"
    "evaluations s = Some \<lparr>evaluation_list = [], average_scores = []\<rparr>"
    "synthesis s = fst (cross_document_synthesis (summarizer_of offline_app) []
                                   (summarizer_st fresh_app_state))"
    "errors s = []"
    "agent_errors (research_st w1) = agent_errors (research_st fresh_app_state) @
       [''Error processing query: '' @
        str (Exception ''Error retrieving documents: connection refused'')]"
    by (elim exE conjE)
  then show ?thesis
    by (simp add: offline_app_def cross_document_synthesis_def fresh_app_state_def)
qed



end
